theory Spec2Isabelle
  imports Complex_Main
begin

section \<open>Python strings\<close>

text \<open>
  A Python \<open>str\<close> is modelled as a \<open>string\<close>: a list of characters with code points
  below 256.  \<open>is_space\<close> is \<open>str.isspace\<close> on that range (the characters that
  \<open>str.strip()\<close> removes), \<open>lower_char\<close> is \<open>str.lower\<close> on one character.
\<close>

definition is_space :: "char \<Rightarrow> bool" where
  "is_space c =
     (let n = (of_char c :: nat)
      in (9 \<le> n \<and> n \<le> 13) \<or> (28 \<le> n \<and> n \<le> 32) \<or> n = 133 \<or> n = 160)"

definition strip :: "string \<Rightarrow> string" where
  "strip s = rev (dropWhile is_space (rev (dropWhile is_space s)))"

definition lower_char :: "char \<Rightarrow> char" where
  "lower_char c =
     (let n = (of_char c :: nat)
      in if (65 \<le> n \<and> n \<le> 90) \<or> (192 \<le> n \<and> n \<le> 222 \<and> n \<noteq> 215)
         then char_of (n + 32) else c)"

definition lower :: "string \<Rightarrow> string" where
  "lower s = map lower_char s"

definition startswith :: "string \<Rightarrow> string \<Rightarrow> bool" where
  "startswith s p = (take (length p) s = p)"

datatype py_exn =
    APIConnectionError | RateLimitError | APIStatusError | APIError
  | IndexError | AttributeError | KeyError | ValueError | TypeError
  | JSONDecodeError | WebSocketDisconnect | TransportError

text \<open>
  \<open>s.split(":", 1)[1]\<close>: the text after the first colon; without a colon the split has
  one element and the index raises.
\<close>

definition split_colon_1 :: "string \<Rightarrow> py_exn + string" where
  "split_colon_1 s =
     (case dropWhile (\<lambda>c. c \<noteq> CHR '':'') s of
        [] \<Rightarrow> Inl IndexError
      | _ # rest \<Rightarrow> Inr rest)"

section \<open>Rewrite client\<close>

text \<open>
  The external completion service is a parameter.  A call either raises, or returns a
  response whose \<open>choices\<close> carry a message content each (\<open>None\<close> is possible).
\<close>

datatype completion = Raises py_exn | Response "string option list"

type_synonym client = "string \<Rightarrow> string \<Rightarrow> completion"

definition newline :: string where
  "newline = [CHR 0x0A]"

definition system_prompt :: string where
  "system_prompt =
     ''You are an uncompromising tone-transformer. You receive a STYLE description '' @
     ''and a MESSAGE, and you MUST rewrite the MESSAGE so it matches the STYLE exactly. '' @
     ''Do not add explanations, warnings, or softening language. Return ONLY the rewritten message text.''"

definition user_prompt :: "string \<Rightarrow> string \<Rightarrow> string" where
  "user_prompt instr content =
     ''STYLE:'' @ newline @ instr @ newline @ newline @
     ''MESSAGE:'' @ newline @ content @ newline @ newline @
     ''Rewritten message:''"

text \<open>\<open>v or ""\<close> for a string that may be \<open>None\<close>.\<close>

definition or_empty :: "string option \<Rightarrow> string" where
  "or_empty v = (case v of None \<Rightarrow> [] | Some s \<Rightarrow> s)"

text \<open>The body of the \<open>try\<close> block of \<open>_rewrite_text\<close>; \<open>Inl\<close> is an exception raised in it.\<close>

definition rewrite_try :: "completion \<Rightarrow> string \<Rightarrow> py_exn + (string \<times> bool \<times> bool)" where
  "rewrite_try resp content =
     (case resp of
        Raises e \<Rightarrow> Inl e
      | Response [] \<Rightarrow> Inl IndexError
      | Response (None # _) \<Rightarrow> Inl AttributeError
      | Response (Some c # _) \<Rightarrow>
          (let rewritten = strip c in
           case (if startswith (lower rewritten) ''rewritten message:''
                 then (case split_colon_1 rewritten of
                         Inl e \<Rightarrow> Inl e
                       | Inr rest \<Rightarrow> Inr (strip rest))
                 else Inr rewritten) of
             Inl e \<Rightarrow> Inl e
           | Inr rewritten' \<Rightarrow>
               if rewritten' = [] then Inr (content, False, False)
               else Inr (rewritten', True, False)))"

definition rewrite_text :: "client \<Rightarrow> string \<Rightarrow> string option \<Rightarrow> string \<times> bool \<times> bool" where
  "rewrite_text cl content instruction =
     (let instr = strip (or_empty instruction) in
      if instr = [] then (content, False, False)
      else
        (case rewrite_try (cl system_prompt (user_prompt instr content)) content of
           Inr r \<Rightarrow> r
         | Inl e \<Rightarrow>
             if e \<in> {APIConnectionError, RateLimitError, APIStatusError, APIError}
             then (content, False, True)
             else (content, False, True)))"

section \<open>Presence tracker\<close>

text \<open>
  The module-level dictionary \<open>presence\<close> maps a user id to the time of its last ping.
  Times are the seconds of \<open>time.time()\<close>, taken as real numbers.
\<close>

type_synonym presence = "int \<rightharpoonup> real"

definition PRESENCE_TIMEOUT_SEC :: real where
  "PRESENCE_TIMEOUT_SEC = 15"

definition prune_presence :: "presence \<Rightarrow> real \<Rightarrow> presence" where
  "prune_presence p now =
     (\<lambda>uid. case p uid of
               None \<Rightarrow> None
             | Some ts \<Rightarrow> if now - ts \<ge> PRESENCE_TIMEOUT_SEC then None else Some ts)"

definition presence_ping :: "presence \<Rightarrow> int \<Rightarrow> real \<Rightarrow> presence" where
  "presence_ping p user_id now = prune_presence (p(user_id \<mapsto> now)) now"

text \<open>
  \<open>bool(ts and now - ts < PRESENCE_TIMEOUT_SEC)\<close>: \<open>ts\<close> is falsy when the entry is
  missing and also when it is \<open>0.0\<close>.
\<close>

definition is_online :: "presence \<Rightarrow> int \<Rightarrow> real \<Rightarrow> bool" where
  "is_online p user_id now =
     (case p user_id of
        None \<Rightarrow> False
      | Some ts \<Rightarrow> ts \<noteq> 0 \<and> now - ts < PRESENCE_TIMEOUT_SEC)"

text \<open>
  The states of the dictionary that the program can be in.  It is empty at the start;
  \<open>presence_ping\<close> is its only writer and stores \<open>time.time()\<close>, the seconds since 1970, a
  positive number; the other endpoints only prune it.
\<close>

inductive presence_reachable :: "presence \<Rightarrow> bool" where
  start: "presence_reachable Map.empty"
| ping: "presence_reachable p \<Longrightarrow> 0 < now \<Longrightarrow> presence_reachable (presence_ping p user_id now)"
| prune: "presence_reachable p \<Longrightarrow> presence_reachable (prune_presence p now)"

section \<open>Connection registry\<close>

text \<open>
  A connection is identified by a number.  \<open>ConnectionManager.active\<close> maps a user id to
  its set of connections; the set is kept as a list without duplicates, in the order of
  arrival (the iteration order of a Python set is unspecified, and no result below
  depends on it).
\<close>

type_synonym conn = nat

type_synonym registry = "int \<rightharpoonup> conn list"

definition bucket_add :: "conn list \<Rightarrow> conn \<Rightarrow> conn list" where
  "bucket_add b ws = (if ws \<in> set b then b else b @ [ws])"

definition connect :: "registry \<Rightarrow> int \<Rightarrow> conn \<Rightarrow> registry" where
  "connect act user_id ws =
     (case act user_id of
        None \<Rightarrow> act(user_id \<mapsto> bucket_add [] ws)
      | Some b \<Rightarrow> act(user_id \<mapsto> bucket_add b ws))"

text \<open>
  \<open>disconnect\<close> follows the two \<open>if\<close> statements of the source.  The first removes the
  connection from a non-empty bucket that holds it.  The second tests
  \<open>bucket and not bucket\<close>, that is, a bucket that is non-empty and empty at once.
\<close>

definition disconnect :: "registry \<Rightarrow> int \<Rightarrow> conn \<Rightarrow> registry" where
  "disconnect act user_id ws =
     (let bucket = act user_id;
          act1 = (case bucket of
                    None \<Rightarrow> act
                  | Some b \<Rightarrow> if b \<noteq> [] \<and> ws \<in> set b
                              then act(user_id \<mapsto> removeAll ws b) else act);
          bucket1 = act1 user_id
      in case bucket1 of
           None \<Rightarrow> act1
         | Some b \<Rightarrow> if b \<noteq> [] \<and> \<not> (b \<noteq> []) then act1(user_id := None) else act1)"

definition conns :: "registry \<Rightarrow> int \<Rightarrow> conn list" where
  "conns act user_id = (case act user_id of None \<Rightarrow> [] | Some b \<Rightarrow> b)"

section \<open>Storage\<close>

record user =
  user_id :: int
  nickname :: string
  instruction :: "string option"
  outgoing_instruction :: "string option"

record message =
  msg_id :: int
  sender_id :: int
  recipient_id :: int
  original_text :: "string option"
  outgoing_text :: "string option"
  rephrased_text :: "string option"
  instruction_used :: "string option"
  outgoing_instruction_used :: "string option"
  timestamp :: int

text \<open>
  Modelled from the spec: the database session of module \<open>database\<close> (not among the
  sources), the storage collaborator.  It holds the rows of the two tables; \<open>db_get\<close> is
  get-user-by-id (\<open>db.get(models.User, id)\<close>), and a row added to \<open>messages\<close> gets a
  server-assigned id (one above the largest id in the table) and the server's time as
  its timestamp.  \<open>create_message\<close> is \<open>crud.create_message\<close>: add the row, commit, and
  return it refreshed.
\<close>

record db =
  users :: "user list"
  messages :: "message list"

definition db_get :: "db \<Rightarrow> int \<Rightarrow> user option" where
  "db_get d uid = find (\<lambda>u. user_id u = uid) (users d)"

definition fresh_id :: "message list \<Rightarrow> int" where
  "fresh_id ms = fold max (map msg_id ms) 0 + 1"

definition create_message ::
  "db \<Rightarrow> int \<Rightarrow> int \<Rightarrow> int \<Rightarrow> string \<Rightarrow> string \<Rightarrow> string \<Rightarrow> string \<Rightarrow> string \<Rightarrow> message \<times> db" where
  "create_message d now sender recipient original outgoing rephrased outgoing_instr instr =
     (let msg = \<lparr> msg_id = fresh_id (messages d),
                   sender_id = sender,
                   recipient_id = recipient,
                   original_text = Some original,
                   outgoing_text = Some outgoing,
                   rephrased_text = Some rephrased,
                   instruction_used = Some instr,
                   outgoing_instruction_used = Some outgoing_instr,
                   timestamp = now \<rparr>
      in (msg, d\<lparr>messages := messages d @ [msg]\<rparr>))"

section \<open>Outbound frames and fanout\<close>

text \<open>The dictionaries passed to \<open>send_json\<close>, one constructor for each \<open>type\<close>.\<close>

record message_payload =
  p_id :: int
  p_sender_id :: int
  p_recipient_id :: int
  p_text :: string
  p_final_text :: string
  p_original_text :: string
  p_outgoing_text :: string
  p_mine :: bool

datatype payload =
    JoinedP bool int
  | ErrorP string "string option"
  | MessageP message_payload

text \<open>
  The state of the server process: the registry, the storage, and two logs of what the
  process has done so far (the oldest first): \<open>sent\<close>, the frames written to connections,
  and \<open>rewrite_calls\<close>, the arguments of the calls of \<open>_rewrite_text\<close>.
\<close>

record server =
  active :: registry
  store :: db
  sent :: "(conn \<times> payload) list"
  rewrite_calls :: "(string \<times> string option) list"

text \<open>
  What the surroundings decide during one event: on which connections a write
  succeeds (\<open>alive\<close>), what the completion service answers to the first and to the second
  rewrite of the event (its answers vary from call to call), and the time of the storage
  server.
\<close>

record env =
  alive :: "conn \<Rightarrow> bool"
  completion_1 :: client
  completion_2 :: client
  clock :: int

definition send_json :: "env \<Rightarrow> server \<Rightarrow> conn \<Rightarrow> payload \<Rightarrow> py_exn + server" where
  "send_json e st ws p =
     (if alive e ws then Inr (st\<lparr>sent := sent st @ [(ws, p)]\<rparr>) else Inl TransportError)"

fun send_each :: "env \<Rightarrow> int \<Rightarrow> payload \<Rightarrow> conn list \<Rightarrow> server \<Rightarrow> server" where
  "send_each e uid p [] st = st"
| "send_each e uid p (ws # rest) st =
     send_each e uid p rest
       (case send_json e st ws p of
          Inr st' \<Rightarrow> st'
        | Inl ex \<Rightarrow> st\<lparr>active := disconnect (active st) uid ws\<rparr>)"

definition send_to_user :: "env \<Rightarrow> server \<Rightarrow> int \<Rightarrow> payload \<Rightarrow> server" where
  "send_to_user e st uid p = send_each e uid p (conns (active st) uid) st"

section \<open>Inbound frames\<close>

text \<open>
  An inbound text frame is given by what \<open>json.loads\<close> makes of it: it raises, or it
  returns a JSON value.  An object is the list of its members; a later member overrides an
  earlier one of the same name.  A number with a fraction or an exponent is a real number
  here (the rounding of floats and the values \<open>NaN\<close> and \<open>Infinity\<close> are left out).
\<close>

datatype json =
    JNull | JBool bool | JInt int | JFloat real | JStr string
  | JList "json list" | JDict "(string \<times> json) list"

datatype frame = Unparsable | Parsed json

definition dict_get :: "(string \<times> json) list \<Rightarrow> string \<Rightarrow> json option" where
  "dict_get kvs k = map_of (rev kvs) k"

fun truthy :: "json \<Rightarrow> bool" where
  "truthy JNull = False"
| "truthy (JBool b) = b"
| "truthy (JInt n) = (n \<noteq> 0)"
| "truthy (JFloat r) = (r \<noteq> 0)"
| "truthy (JStr s) = (s \<noteq> [])"
| "truthy (JList xs) = (xs \<noteq> [])"
| "truthy (JDict kvs) = (kvs \<noteq> [])"

text \<open>
  \<open>int(s)\<close> for a string.  The whitespace that \<open>int\<close> skips at both ends is not that of
  \<open>str.strip()\<close>: the separators \<open>0x1C\<close> to \<open>0x1F\<close> are not skipped.  After it come an
  optional sign and decimal digits, where single underscores may separate digits.  More
  than \<open>MAX_STR_DIGITS\<close> digits (the interpreter's default limit) are refused.  Anything
  else is a \<open>ValueError\<close>, too.
\<close>

definition is_int_space :: "char \<Rightarrow> bool" where
  "is_int_space c =
     (let n = (of_char c :: nat)
      in (9 \<le> n \<and> n \<le> 13) \<or> n = 32 \<or> n = 133 \<or> n = 160)"

definition int_strip :: "string \<Rightarrow> string" where
  "int_strip s = rev (dropWhile is_int_space (rev (dropWhile is_int_space s)))"

definition is_digit :: "char \<Rightarrow> bool" where
  "is_digit c = (48 \<le> (of_char c :: nat) \<and> (of_char c :: nat) \<le> 57)"

definition MAX_STR_DIGITS :: nat where
  "MAX_STR_DIGITS = 4300"

fun parse_digits :: "bool \<Rightarrow> nat \<Rightarrow> string \<Rightarrow> nat option" where
  "parse_digits prev acc [] = (if prev then Some acc else None)"
| "parse_digits prev acc (c # cs) =
     (if is_digit c then parse_digits True (10 * acc + (of_char c - 48)) cs
      else if c = CHR ''_'' \<and> prev then parse_digits False acc cs
      else None)"

definition int_of_str :: "string \<Rightarrow> py_exn + int" where
  "int_of_str s =
     (let t = int_strip s;
          neg = (t \<noteq> [] \<and> hd t = CHR ''-'');
          body = (if t \<noteq> [] \<and> (hd t = CHR ''-'' \<or> hd t = CHR ''+'') then tl t else t)
      in if length (filter is_digit body) > MAX_STR_DIGITS then Inl ValueError
         else (case parse_digits False 0 body of
                 None \<Rightarrow> Inl ValueError
               | Some n \<Rightarrow> Inr (if neg then - int n else int n)))"

fun py_int :: "json \<Rightarrow> py_exn + int" where
  "py_int JNull = Inl TypeError"
| "py_int (JBool b) = Inr (if b then 1 else 0)"
| "py_int (JInt n) = Inr n"
| "py_int (JFloat r) = Inr (if r \<ge> 0 then \<lfloor>r\<rfloor> else \<lceil>r\<rceil>)"
| "py_int (JStr s) = int_of_str s"
| "py_int (JList xs) = Inl TypeError"
| "py_int (JDict kvs) = Inl TypeError"

text \<open>\<open>(data.get("text") or "").strip()\<close>: only a string has \<open>strip\<close>.\<close>

definition text_field :: "json option \<Rightarrow> py_exn + string" where
  "text_field v =
     (case v of
        None \<Rightarrow> Inr (strip [])
      | Some j \<Rightarrow>
          if \<not> truthy j then Inr (strip [])
          else (case j of JStr s \<Rightarrow> Inr (strip s) | _ \<Rightarrow> Inl AttributeError))"

section \<open>Relay: the per-connection loop\<close>

definition rewrite_failed_notice :: payload where
  "rewrite_failed_notice =
     ErrorP ''rewrite_failed''
       (Some ''Unable to reach rewriting service; sending fallback text.'')"

definition payload_sender :: "message \<Rightarrow> int \<Rightarrow> int \<Rightarrow> string \<Rightarrow> string \<Rightarrow> string \<Rightarrow> payload" where
  "payload_sender msg sender recipient text outgoing final =
     MessageP \<lparr> p_id = msg_id msg, p_sender_id = sender, p_recipient_id = recipient,
                p_text = outgoing, p_final_text = final, p_original_text = text,
                p_outgoing_text = outgoing, p_mine = True \<rparr>"

definition payload_recipient :: "message \<Rightarrow> int \<Rightarrow> int \<Rightarrow> string \<Rightarrow> string \<Rightarrow> string \<Rightarrow> payload" where
  "payload_recipient msg sender recipient text outgoing final =
     MessageP \<lparr> p_id = msg_id msg, p_sender_id = sender, p_recipient_id = recipient,
                p_text = final, p_final_text = final, p_original_text = text,
                p_outgoing_text = outgoing, p_mine = False \<rparr>"

text \<open>
  A call \<open>await _rewrite_text(content, instruction)\<close>: its result, and the call entered in
  the log.
\<close>

definition run_rewrite ::
  "client \<Rightarrow> server \<Rightarrow> string \<Rightarrow> string option \<Rightarrow> (string \<times> bool \<times> bool) \<times> server" where
  "run_rewrite cl st content ins =
     (rewrite_text cl content ins, st\<lparr>rewrite_calls := rewrite_calls st @ [(content, ins)]\<rparr>)"

text \<open>
  \<open>relay\<close> is the block of \<open>ws_endpoint\<close> under \<open>async with AsyncSessionLocal() as db\<close>,
  entered with the recipient id and the trimmed, non-empty text of a \<open>send\<close> event.
  The first component of the result is the exception that leaves the block, if any.
\<close>

definition relay :: "env \<Rightarrow> server \<Rightarrow> conn \<Rightarrow> int \<Rightarrow> int \<Rightarrow> string \<Rightarrow> py_exn option \<times> server" where
  "relay e st ws sender recipient text =
     (case db_get (store st) recipient of
        None \<Rightarrow>
          (case send_json e st ws (ErrorP ''recipient_not_found'' None) of
             Inl ex \<Rightarrow> (Some ex, st)
           | Inr st' \<Rightarrow> (None, st'))
      | Some r \<Rightarrow>
          (let sender_outgoing =
                 (case db_get (store st) sender of
                    None \<Rightarrow> Some []
                  | Some s \<Rightarrow> outgoing_instruction s);
               recipient_incoming = or_empty (instruction r);
               call1 = run_rewrite (completion_1 e) st text sender_outgoing;
               outgoing = fst (fst call1);
               outgoing_error = snd (snd (fst call1));
               call2 = run_rewrite (completion_2 e) (snd call1) outgoing (Some recipient_incoming);
               final = fst (fst call2);
               incoming_error = snd (snd (fst call2));
               st0 = snd call2
           in (case (if outgoing_error \<or> incoming_error
                     then send_json e st0 ws rewrite_failed_notice else Inr st0) of
                 Inl ex \<Rightarrow> (Some ex, st0)
               | Inr st1 \<Rightarrow>
                   (let created = create_message (store st1) (clock e) sender recipient
                                    text outgoing final
                                    (or_empty sender_outgoing)
                                    (or_empty (Some recipient_incoming));
                        msg = fst created;
                        st2 = st1\<lparr>store := snd created\<rparr>;
                        st3 = send_to_user e st2 sender
                                (payload_sender msg sender recipient text outgoing final);
                        st4 = send_to_user e st3 recipient
                                (payload_recipient msg sender recipient text outgoing final)
                    in (None, st4)))))"

text \<open>
  Names for the results of the two calls of \<open>_rewrite_text\<close> in \<open>relay\<close> (the outgoing stage
  on the original text, the incoming stage on the result of the outgoing stage), for use
  in statements about it.
\<close>

definition sender_outgoing_of :: "server \<Rightarrow> int \<Rightarrow> string option" where
  "sender_outgoing_of st sender =
     (case db_get (store st) sender of None \<Rightarrow> Some [] | Some s \<Rightarrow> outgoing_instruction s)"

definition outgoing_stage :: "env \<Rightarrow> server \<Rightarrow> int \<Rightarrow> string \<Rightarrow> string \<times> bool \<times> bool" where
  "outgoing_stage e st sender text =
     rewrite_text (completion_1 e) text (sender_outgoing_of st sender)"

definition incoming_stage ::
  "env \<Rightarrow> server \<Rightarrow> int \<Rightarrow> user \<Rightarrow> string \<Rightarrow> string \<times> bool \<times> bool" where
  "incoming_stage e st sender r text =
     rewrite_text (completion_2 e) (fst (outgoing_stage e st sender text))
       (Some (or_empty (instruction r)))"

text \<open>
  One turn of the \<open>while True\<close> loop on a received frame.  \<open>Continue\<close> carries the value of
  the local variable \<open>peer_id\<close> for the next turn; \<open>Raised\<close> is an exception that leaves
  the loop.
\<close>

datatype outcome = Continue "int option" | Raised py_exn

definition ws_step ::
  "env \<Rightarrow> server \<Rightarrow> conn \<Rightarrow> int \<Rightarrow> int option \<Rightarrow> frame \<Rightarrow> outcome \<times> server" where
  "ws_step e st ws uid peer fr =
     (case fr of
        Unparsable \<Rightarrow> (Raised JSONDecodeError, st)
      | Parsed (JDict kvs) \<Rightarrow>
          if dict_get kvs ''type'' = Some (JStr ''join'') then
            (case py_int (case dict_get kvs ''peer_id'' of None \<Rightarrow> JInt 0 | Some v \<Rightarrow> v) of
               Inl ex \<Rightarrow> (Raised ex, st)
             | Inr p \<Rightarrow>
                 (case send_json e st ws (JoinedP True p) of
                    Inl ex \<Rightarrow> (Raised ex, st)
                  | Inr st' \<Rightarrow> (Continue (Some p), st')))
          else if dict_get kvs ''type'' = Some (JStr ''send'') then
            (case dict_get kvs ''to'' of
               None \<Rightarrow> (Raised KeyError, st)
             | Some v \<Rightarrow>
                 (case py_int v of
                    Inl ex \<Rightarrow> (Raised ex, st)
                  | Inr recipient \<Rightarrow>
                      (case text_field (dict_get kvs ''text'') of
                         Inl ex \<Rightarrow> (Raised ex, st)
                       | Inr text \<Rightarrow>
                           if text = [] then (Continue peer, st)
                           else (case relay e st ws uid recipient text of
                                   (Some ex, st') \<Rightarrow> (Raised ex, st')
                                 | (None, st') \<Rightarrow> (Continue peer, st')))))
          else
            (case send_json e st ws (ErrorP ''unknown_type'' None) of
               Inl ex \<Rightarrow> (Raised ex, st)
             | Inr st' \<Rightarrow> (Continue peer, st'))
      | Parsed _ \<Rightarrow> (Raised AttributeError, st))"

text \<open>
  The loop over the frames that arrive, each with the surroundings of its turn.  When
  no frame is left the peer has gone and \<open>receive_text\<close> raises \<open>WebSocketDisconnect\<close>.
  The loop ends only by an exception, which is the first component of the result.
\<close>

fun ws_loop :: "server \<Rightarrow> conn \<Rightarrow> int \<Rightarrow> int option \<Rightarrow> (env \<times> frame) list \<Rightarrow> py_exn \<times> server" where
  "ws_loop st ws uid peer [] = (WebSocketDisconnect, st)"
| "ws_loop st ws uid peer ((e, fr) # rest) =
     (case ws_step e st ws uid peer fr of
        (Raised ex, st') \<Rightarrow> (ex, st')
      | (Continue peer', st') \<Rightarrow> ws_loop st' ws uid peer' rest)"

text \<open>
  \<open>ws_endpoint\<close>: register, run the loop, and deregister in the \<open>finally\<close> clause.
  \<open>WebSocketDisconnect\<close> is swallowed, any other exception leaves the endpoint.
\<close>

definition ws_endpoint :: "server \<Rightarrow> conn \<Rightarrow> int \<Rightarrow> (env \<times> frame) list \<Rightarrow> py_exn option \<times> server" where
  "ws_endpoint st ws uid evs =
     (case ws_loop (st\<lparr>active := connect (active st) uid ws\<rparr>) ws uid None evs of
        (ex, st') \<Rightarrow>
          (if ex = WebSocketDisconnect then None else Some ex,
           st'\<lparr>active := disconnect (active st') uid ws\<rparr>))"

section \<open>Conversation summaries\<close>

record summary =
  s_peer_id :: int
  s_nickname :: string
  last_message_id :: "int option"
  last_message_sender_id :: "int option"
  last_message_text :: "string option"
  last_message_timestamp :: "int option"

text \<open>\<open>a or b or c or ""\<close> on nullable text columns: the first that is neither null nor empty.\<close>

definition text_truthy :: "string option \<Rightarrow> bool" where
  "text_truthy v = (case v of None \<Rightarrow> False | Some s \<Rightarrow> s \<noteq> [])"

definition or3 :: "string option \<Rightarrow> string option \<Rightarrow> string option \<Rightarrow> string" where
  "or3 a b c =
     (if text_truthy a then or_empty a
      else if text_truthy b then or_empty b
      else if text_truthy c then or_empty c
      else [])"

text \<open>
  The query of the viewer's messages, \<open>order_by(Message.timestamp.desc())\<close>.  Rows with
  equal timestamps keep their table order (SQL leaves their order open).
\<close>

definition viewer_messages :: "db \<Rightarrow> int \<Rightarrow> message list" where
  "viewer_messages d viewer =
     sort_key (\<lambda>m. - timestamp m)
       (filter (\<lambda>m. sender_id m = viewer \<or> recipient_id m = viewer) (messages d))"

definition initial_summaries :: "user list \<Rightarrow> int \<Rightarrow> (int \<rightharpoonup> summary)" where
  "initial_summaries us viewer =
     fold (\<lambda>u m. m(user_id u \<mapsto>
                    \<lparr> s_peer_id = user_id u, s_nickname = nickname u,
                      last_message_id = None, last_message_sender_id = None,
                      last_message_text = None, last_message_timestamp = None \<rparr>))
          (filter (\<lambda>u. user_id u \<noteq> viewer) us) Map.empty"

text \<open>\<open>msg.recipient_id if msg.sender_id == user_id else msg.sender_id\<close>.\<close>

definition peer_of :: "int \<Rightarrow> message \<Rightarrow> int" where
  "peer_of viewer msg = (if sender_id msg = viewer then recipient_id msg else sender_id msg)"

text \<open>The body of the loop over the messages, with its two \<open>continue\<close> statements.\<close>

definition scan_message :: "int \<Rightarrow> message \<Rightarrow> (int \<rightharpoonup> summary) \<Rightarrow> (int \<rightharpoonup> summary)" where
  "scan_message viewer msg summaries =
     (let peer = peer_of viewer msg
      in case summaries peer of
           None \<Rightarrow> summaries
         | Some sm \<Rightarrow>
             if last_message_id sm \<noteq> None then summaries
             else
               (let mine = (sender_id msg = viewer);
                    text = (if mine
                            then or3 (outgoing_text msg) (rephrased_text msg) (original_text msg)
                            else or3 (rephrased_text msg) (outgoing_text msg) (original_text msg))
                in summaries(peer \<mapsto>
                     sm\<lparr> last_message_id := Some (msg_id msg),
                         last_message_sender_id := Some (sender_id msg),
                         last_message_text := Some text,
                         last_message_timestamp := Some (timestamp msg) \<rparr>)))"

definition get_conversation_summaries :: "db \<Rightarrow> int \<Rightarrow> (int \<rightharpoonup> summary)" where
  "get_conversation_summaries d viewer =
     fold (scan_message viewer) (viewer_messages d viewer) (initial_summaries (users d) viewer)"

section \<open>Conversation summaries, as specified\<close>

text \<open>
  What the aggregator is specified to return, written from the specification and not
  from the code: the first text of a list that is present and not empty, the display
  text by direction, the most recent message of a list (of several with the greatest
  timestamp, the one that comes first), and the summary of one peer, taken from the most
  recent message between viewer and peer in the table of messages.
\<close>

fun first_present :: "string option list \<Rightarrow> string" where
  "first_present [] = []"
| "first_present (None # rest) = first_present rest"
| "first_present (Some s # rest) = (if s = [] then first_present rest else s)"

definition display_text_spec :: "int \<Rightarrow> message \<Rightarrow> string" where
  "display_text_spec viewer m =
     (if sender_id m = viewer
      then first_present [outgoing_text m, rephrased_text m, original_text m]
      else first_present [rephrased_text m, outgoing_text m, original_text m])"

definition between :: "int \<Rightarrow> int \<Rightarrow> message \<Rightarrow> bool" where
  "between viewer peer m =
     ((sender_id m = viewer \<and> recipient_id m = peer)
      \<or> (sender_id m = peer \<and> recipient_id m = viewer))"

fun most_recent :: "message list \<Rightarrow> message option" where
  "most_recent [] = None"
| "most_recent (m # ms) =
     (case most_recent ms of
        None \<Rightarrow> Some m
      | Some n \<Rightarrow> if timestamp m < timestamp n then Some n else Some m)"

definition summary_spec :: "db \<Rightarrow> int \<Rightarrow> int \<Rightarrow> summary option" where
  "summary_spec d viewer peer =
     (case find (\<lambda>u. user_id u = peer) (users d) of
        None \<Rightarrow> None
      | Some u \<Rightarrow>
          if peer = viewer then None
          else Some
            (case most_recent (filter (between viewer peer) (messages d)) of
               None \<Rightarrow>
                 \<lparr> s_peer_id = peer, s_nickname = nickname u,
                   last_message_id = None, last_message_sender_id = None,
                   last_message_text = None, last_message_timestamp = None \<rparr>
             | Some m \<Rightarrow>
                 \<lparr> s_peer_id = peer, s_nickname = nickname u,
                   last_message_id = Some (msg_id m),
                   last_message_sender_id = Some (sender_id m),
                   last_message_text = Some (display_text_spec viewer m),
                   last_message_timestamp = Some (timestamp m) \<rparr>))"

section \<open>Example data\<close>

definition failing_client :: client where
  "failing_client sys usr = Raises RateLimitError"

definition polite_client :: client where
  "polite_client sys usr = Response [Some ''Rewritten message: Good day '']"

definition pirate_client :: client where
  "pirate_client sys usr = Response [Some ''Ahoy'']"

definition lossy_env :: env where
  "lossy_env = \<lparr> alive = (\<lambda>c. c \<noteq> 9), completion_1 = polite_client,
                  completion_2 = pirate_client, clock = 100 \<rparr>"

definition outage_env :: env where
  "outage_env = \<lparr> alive = (\<lambda>c. True), completion_1 = failing_client,
                   completion_2 = failing_client, clock = 100 \<rparr>"

definition cut_off_env :: env where
  "cut_off_env = \<lparr> alive = (\<lambda>c. c \<noteq> 9), completion_1 = failing_client,
                    completion_2 = failing_client, clock = 100 \<rparr>"

definition blank_send_frame :: frame where
  "blank_send_frame =
     Parsed (JDict [(''type'', JStr ''send''), (''to'', JInt 999), (''text'', JStr ''  '')])"

definition lost_send_frame :: frame where
  "lost_send_frame =
     Parsed (JDict [(''type'', JStr ''send''), (''to'', JInt 999), (''text'', JStr '' hey '')])"

definition join_frame :: frame where
  "join_frame = Parsed (JDict [(''type'', JStr ''join''), (''peer_id'', JStr ''2'')])"

definition ping_frame :: frame where
  "ping_frame = Parsed (JDict [(''type'', JStr ''ping'')])"

definition alice :: user where
  "alice = \<lparr> user_id = 1, nickname = ''alice'', instruction = Some [],
             outgoing_instruction = Some ''formal'' \<rparr>"

definition bob :: user where
  "bob = \<lparr> user_id = 2, nickname = ''bob'', instruction = Some ''pirate speak'',
           outgoing_instruction = None \<rparr>"

definition demo_server :: server where
  "demo_server =
     \<lparr> active = Map.empty(1 \<mapsto> [7, 9, 8], 2 \<mapsto> [5]),
       store = \<lparr> users = [alice, bob], messages = [] \<rparr>,
       sent = [], rewrite_calls = [] \<rparr>"

definition chat_db :: db where
  "chat_db =
     \<lparr> users = [alice, bob],
       messages =
         [\<lparr> msg_id = 1, sender_id = 1, recipient_id = 2, original_text = Some ''hey'',
            outgoing_text = Some ''Good day'', rephrased_text = Some ''Ahoy'',
            instruction_used = Some ''pirate speak'', outgoing_instruction_used = Some ''formal'',
            timestamp = 20 \<rparr>,
          \<lparr> msg_id = 2, sender_id = 2, recipient_id = 1, original_text = Some ''yo'',
            outgoing_text = Some ''yo'', rephrased_text = Some [],
            instruction_used = Some [], outgoing_instruction_used = Some [],
            timestamp = 30 \<rparr>,
          \<lparr> msg_id = 3, sender_id = 1, recipient_id = 2, original_text = Some ''hi'',
            outgoing_text = Some ''Greetings'', rephrased_text = Some ''Arr'',
            instruction_used = Some ''pirate speak'', outgoing_instruction_used = Some ''formal'',
            timestamp = 10 \<rparr>] \<rparr>"

section \<open>Properties of the rewrite client\<close>

lemma rewrite_try_nonempty:
  "content \<noteq> [] \<Longrightarrow> rewrite_try resp content = Inr (t, ch, f) \<Longrightarrow> t \<noteq> []"
  by (auto simp: rewrite_try_def Let_def
      split: completion.splits list.splits option.splits sum.splits if_splits)

lemma rewrite_text_nonempty:
  "content \<noteq> [] \<Longrightarrow> fst (rewrite_text cl content ins) \<noteq> []"
  by (cases "rewrite_try (cl system_prompt
         (user_prompt (strip (or_empty ins)) content)) content")
     (auto simp: rewrite_text_def Let_def dest: rewrite_try_nonempty)

text \<open>
  Claim C4.  For every text and every instruction that is not blank, when the call to
  the completion service raises (whatever the exception), \<open>_rewrite_text\<close> returns the
  input text unchanged with \<open>changed = False\<close> and \<open>failed = True\<close>.  The function is
  total and returns a triple: no exception leaves it.
\<close>

theorem rewrite_text_call_failure:
  assumes "strip (or_empty ins) \<noteq> []"
    and "cl system_prompt (user_prompt (strip (or_empty ins)) content) = Raises ex"
  shows "rewrite_text cl content ins = (content, False, True)"
  using assms by (simp add: rewrite_text_def rewrite_try_def Let_def)

theorem rewrite_text_call_failure_witness:
  "strip (or_empty (Some ''formal'')) \<noteq> []
   \<and> failing_client system_prompt (user_prompt (strip (or_empty (Some ''formal''))) ''hey'')
       = Raises RateLimitError
   \<and> rewrite_text failing_client ''hey'' (Some ''formal'') = (''hey'', False, True)"
proof -
  have a: "strip (or_empty (Some ''formal'')) \<noteq> []"
    by code_simp
  have b: "failing_client system_prompt (user_prompt (strip (or_empty (Some ''formal''))) ''hey'')
             = Raises RateLimitError"
    by (simp add: failing_client_def)
  from rewrite_text_call_failure
         [of "Some ''formal''" failing_client "''hey''" RateLimitError, OF a b] a b
  show ?thesis by simp
qed

section \<open>Properties of the connection registry\<close>

lemma disconnect_eq:
  "disconnect act uid ws =
     (case act uid of
        None \<Rightarrow> act
      | Some b \<Rightarrow> if ws \<in> set b then act(uid \<mapsto> removeAll ws b) else act)"
  by (auto simp: disconnect_def Let_def split: option.splits)

text \<open>
  Claim C10.  \<open>disconnect(user_id, conn)\<close> for a connection that is not registered for
  \<open>user_id\<close>, also when \<open>user_id\<close> has no entry, leaves the whole registry as it was; the
  function is total, so nothing is raised.
\<close>

theorem disconnect_unregistered_noop:
  assumes "ws \<notin> set (conns act uid)"
  shows "disconnect act uid ws = act"
  using assms by (auto simp: disconnect_eq conns_def split: option.splits)

theorem disconnect_unregistered_noop_witness:
  "(9::nat) \<notin> set (conns (Map.empty(1 \<mapsto> [7])) 1)
   \<and> disconnect (Map.empty(1 \<mapsto> [7])) 1 9 = Map.empty(1 \<mapsto> [7])
   \<and> (9::nat) \<notin> set (conns (Map.empty(1 \<mapsto> [7])) 2)
   \<and> disconnect (Map.empty(1 \<mapsto> [7])) 2 9 = Map.empty(1 \<mapsto> [7])"
proof -
  have a: "(9::nat) \<notin> set (conns (Map.empty(1 \<mapsto> [7])) 1)"
    by (simp add: conns_def)
  have b: "(9::nat) \<notin> set (conns (Map.empty(1 \<mapsto> [7])) 2)"
    by (simp add: conns_def)
  from disconnect_unregistered_noop [OF a] disconnect_unregistered_noop [OF b] a b
  show ?thesis by simp
qed

text \<open>
  Claim C3.  After \<open>disconnect\<close> removes the last connection of a user the key should be
  gone.  In the source the test before \<open>self.active.pop\<close> is \<open>bucket and not bucket\<close>,
  which no bucket satisfies: a user who joins with connection 7 and leaves again keeps a
  key, bound to the empty set.
\<close>

theorem disconnect_last_keeps_key:
  "disconnect (connect Map.empty 1 7) 1 7 1 = Some []"
  by (simp add: disconnect_eq connect_def bucket_add_def)

lemma send_each_result:
  "send_each e uid p xs st =
     st\<lparr>active := (case active st uid of
                     None \<Rightarrow> active st
                   | Some b \<Rightarrow> (active st)(uid \<mapsto> filter (\<lambda>c. alive e c \<or> c \<notin> set xs) b)),
        sent := sent st @ map (\<lambda>c. (c, p)) (filter (alive e) xs)\<rparr>"
proof (induction xs arbitrary: st)
  case Nil
  show ?case by (cases "active st uid") (simp_all add: map_upd_triv)
next
  case (Cons ws rest)
  show ?case
  proof (cases "alive e ws")
    case True
    have "filter (\<lambda>c. alive e c \<or> c \<notin> set rest) b
            = filter (\<lambda>c. alive e c \<or> c \<notin> set (ws # rest)) b" for b
      using True by (intro filter_cong) auto
    then show ?thesis using True
      by (simp add: Cons.IH send_json_def split: option.splits)
  next
    case False
    have "filter (\<lambda>c. alive e c \<or> c \<notin> set rest) (removeAll ws b)
            = filter (\<lambda>c. alive e c \<or> c \<notin> set (ws # rest)) b" for b
      using False by (induction b) auto
    moreover have "ws \<notin> set b \<Longrightarrow> filter (\<lambda>c. alive e c \<or> c \<notin> set rest) b
            = filter (\<lambda>c. alive e c \<or> c \<notin> set (ws # rest)) b" for b
      by (intro filter_cong) auto
    ultimately show ?thesis using False
      by (simp add: Cons.IH send_json_def disconnect_eq split: option.splits)
  qed
qed

lemma send_to_user_result:
  "send_to_user e st uid p =
     st\<lparr>active := (case active st uid of
                     None \<Rightarrow> active st
                   | Some b \<Rightarrow> (active st)(uid \<mapsto> filter (alive e) b)),
        sent := sent st @ map (\<lambda>c. (c, p)) (filter (alive e) (conns (active st) uid))\<rparr>"
proof -
  have "filter (\<lambda>c. alive e c \<or> c \<notin> set b) b = filter (alive e) b" for b
    by (intro filter_cong) auto
  then show ?thesis
    by (simp add: send_to_user_def send_each_result conns_def split: option.splits)
qed

text \<open>
  Claim C7.  A fanout \<open>send_to_user(user_id, payload)\<close> over the registered connections
  \<open>b\<close> of the user returns a state, never an exception.  In it the user's connections
  are those of \<open>b\<close> on which the write succeeded: each connection whose write failed has
  been removed, and only those.  The payload has been written once to every other
  connection of \<open>b\<close>, whatever failed before it in the iteration.  Other users' entries and
  the storage are untouched.
\<close>

theorem send_to_user_drops_failed_only:
  assumes "active st uid = Some b"
  shows "send_to_user e st uid p =
           st\<lparr>active := (active st)(uid \<mapsto> filter (alive e) b),
              sent := sent st @ map (\<lambda>c. (c, p)) (filter (alive e) b)\<rparr>"
  using assms by (simp add: send_to_user_result conns_def)

theorem send_to_user_drops_failed_only_witness:
  "active demo_server 1 = Some [7, 9, 8]
   \<and> send_to_user lossy_env demo_server 1 (ErrorP ''ping'' None) =
       demo_server\<lparr>active := (active demo_server)(1 \<mapsto> [7, 8]),
                   sent := [(7, ErrorP ''ping'' None), (8, ErrorP ''ping'' None)]\<rparr>"
proof -
  have a: "active demo_server 1 = Some [7, 9, 8]"
    by (simp add: demo_server_def)
  from send_to_user_drops_failed_only [OF a, of lossy_env "ErrorP ''ping'' None"] a
  show ?thesis by (simp add: lossy_env_def demo_server_def)
qed

section \<open>Properties of the presence tracker\<close>

lemma presence_reachable_positive:
  "presence_reachable p \<Longrightarrow> p u = Some ts \<Longrightarrow> 0 < ts"
proof (induction arbitrary: u ts rule: presence_reachable.induct)
  case start
  then show ?case by simp
next
  case (ping p now user_id)
  then show ?case
    by (auto simp: presence_ping_def prune_presence_def split: option.splits if_splits)
next
  case (prune p now)
  then show ?case
    by (auto simp: prune_presence_def split: option.splits if_splits)
qed

text \<open>
  Claim C8.  In every state of the presence dictionary that the program can reach, for
  every user id \<open>u\<close> and time \<open>now\<close>, \<open>_is_online(u, now)\<close> is true exactly when an entry
  for \<open>u\<close> exists and \<open>now\<close> minus its timestamp is strictly below the 15 seconds of the
  timeout.  \<open>_is_online\<close> only reads the dictionary, so it removes nothing.  After a ping
  of \<open>u\<close> at a time \<open>t\<close> of the clock, \<open>u\<close> is online at \<open>t\<close> and is not online 16 seconds
  later.
\<close>

theorem is_online_iff:
  assumes "presence_reachable p" and "0 < t"
  shows "(is_online p u now \<longleftrightarrow>
            (\<exists>ts. p u = Some ts \<and> now - ts < PRESENCE_TIMEOUT_SEC))
         \<and> is_online (presence_ping p u t) u t
         \<and> \<not> is_online (presence_ping p u t) u (t + 16)"
proof -
  have "is_online p u now \<longleftrightarrow> (\<exists>ts. p u = Some ts \<and> now - ts < PRESENCE_TIMEOUT_SEC)"
    using presence_reachable_positive [OF assms(1), of u]
    by (cases "p u") (auto simp: is_online_def)
  moreover have "is_online (presence_ping p u t) u t"
    using assms(2)
    by (simp add: is_online_def presence_ping_def prune_presence_def PRESENCE_TIMEOUT_SEC_def)
  moreover have "\<not> is_online (presence_ping p u t) u (t + 16)"
    by (simp add: is_online_def presence_ping_def prune_presence_def PRESENCE_TIMEOUT_SEC_def)
  ultimately show ?thesis by blast
qed

theorem is_online_iff_witness:
  "presence_reachable (presence_ping Map.empty 1 100) \<and> (0::real) < 200
   \<and> presence_ping Map.empty 1 100 1 = Some 100
   \<and> is_online (presence_ping Map.empty 1 100) 1 105
   \<and> \<not> is_online (presence_ping Map.empty 1 100) 1 115
   \<and> \<not> is_online (presence_ping Map.empty 1 100) 2 105
   \<and> is_online (presence_ping (presence_ping Map.empty 1 100) 1 200) 1 200
   \<and> \<not> is_online (presence_ping (presence_ping Map.empty 1 100) 1 200) 1 (200 + 16)"
proof -
  have r: "presence_reachable (presence_ping Map.empty 1 100)"
    by (rule presence_reachable.ping [OF presence_reachable.start]) simp
  have t: "(0::real) < 200" by simp
  have e: "presence_ping Map.empty 1 100 1 = Some 100"
          "presence_ping Map.empty 1 100 2 = None"
    by (simp_all add: presence_ping_def prune_presence_def PRESENCE_TIMEOUT_SEC_def)
  from is_online_iff [OF r t, of 1 105] is_online_iff [OF r t, of 1 115]
       is_online_iff [OF r t, of 2 105] r t e
  show ?thesis by (simp add: PRESENCE_TIMEOUT_SEC_def)
qed

section \<open>Properties of the relay\<close>

lemma relay_found:
  assumes "db_get (store st) recipient = Some r"
    and "snd (snd (outgoing_stage e st sender text))
         \<or> snd (snd (incoming_stage e st sender r text)) \<longrightarrow> alive e ws"
  shows "relay e st ws sender recipient text =
     (let outgoing = fst (outgoing_stage e st sender text);
          final = fst (incoming_stage e st sender r text);
          st0 = st\<lparr>rewrite_calls := rewrite_calls st
                   @ [(text, sender_outgoing_of st sender),
                      (outgoing, Some (or_empty (instruction r)))]\<rparr>;
          st1 = (if snd (snd (outgoing_stage e st sender text))
                    \<or> snd (snd (incoming_stage e st sender r text))
                 then st0\<lparr>sent := sent st @ [(ws, rewrite_failed_notice)]\<rparr> else st0);
          created = create_message (store st) (clock e) sender recipient text outgoing final
                      (or_empty (sender_outgoing_of st sender)) (or_empty (instruction r))
      in (None,
          send_to_user e
            (send_to_user e (st1\<lparr>store := snd created\<rparr>) sender
               (payload_sender (fst created) sender recipient text outgoing final))
            recipient
            (payload_recipient (fst created) sender recipient text outgoing final)))"
  using assms
  by (simp add: relay_def Let_def run_rewrite_def send_json_def outgoing_stage_def
        incoming_stage_def sender_outgoing_of_def or_empty_def)

lemma store_send_to_user: "store (send_to_user e st uid p) = store st"
  by (simp add: send_to_user_result)

text \<open>
  Claim C1 as stated takes every send event whose recipient exists and whose text is
  not empty.  When a rewrite has failed the relay first writes a notice to the
  originating connection, and nothing handles a failure of that write: with both rewrites
  failing and the originating connection 9 gone, the relay ends with the exception of the
  write, stores no message and writes nothing to the open connections 8 and 5.  Also, a
  registered connection on which the write fails (9, of the sender) receives no payload
  in a relay that succeeds.
\<close>

theorem relay_dead_origin_counterexample:
  "db_get (store demo_server) 2 = Some bob \<and> ''hey'' \<noteq> []
   \<and> alive cut_off_env 8 \<and> alive cut_off_env 5
   \<and> 8 \<in> set (conns (active demo_server) 1) \<and> 5 \<in> set (conns (active demo_server) 2)
   \<and> relay cut_off_env demo_server 9 1 2 ''hey'' =
       (Some TransportError,
        demo_server\<lparr>rewrite_calls := [(''hey'', Some ''formal''),
                                       (''hey'', Some ''pirate speak'')]\<rparr>)
   \<and> 9 \<in> set (conns (active demo_server) 1)
   \<and> map fst (sent (snd (relay lossy_env demo_server 7 1 2 ''hey''))) = [7, 8, 5]"
proof -
  have a: "db_get (store demo_server) 2 = Some bob" "db_get (store demo_server) 1 = Some alice"
    by (simp_all add: demo_server_def db_get_def alice_def bob_def)
  have s1: "rewrite_text failing_client ''hey'' (Some ''formal'') = (''hey'', False, True)"
    by code_simp
  have s2: "rewrite_text failing_client ''hey'' (Some ''pirate speak'') = (''hey'', False, True)"
    by code_simp
  have o: "outgoing_instruction alice = Some ''formal''"
          "or_empty (instruction bob) = ''pirate speak''"
    by (simp_all add: alice_def bob_def or_empty_def)
  have r: "relay cut_off_env demo_server 9 1 2 ''hey'' =
       (Some TransportError,
        demo_server\<lparr>rewrite_calls := [(''hey'', Some ''formal''),
                                       (''hey'', Some ''pirate speak'')]\<rparr>)"
    by (simp add: relay_def Let_def run_rewrite_def send_json_def a o s1 s2 cut_off_env_def)
       (simp add: demo_server_def)
  have c: "conns (active demo_server) 1 = [7, 9, 8]" "conns (active demo_server) 2 = [5]"
    by (simp_all add: demo_server_def conns_def)
  have l: "map fst (sent (snd (relay lossy_env demo_server 7 1 2 ''hey''))) = [7, 8, 5]"
    by code_simp
  show ?thesis
    using a r l by (simp add: c cut_off_env_def)
qed

text \<open>
  Claim C1, amended.  A send event whose recipient exists, for which the notice of a
  failed rewrite, when one is due, can be written to the originating connection, ends
  without an exception, stores one message and writes, after that notice, exactly two
  message payloads.  The first goes to every connection of the sender on which the write
  succeeds; its \<open>text\<close> is the outgoing text (the result of the first rewrite only) and
  \<open>mine\<close> is true.  The second goes to every such connection of the recipient; its
  \<open>text\<close> is the final text (the result of the second rewrite) and \<open>mine\<close> is false.
  Both carry the id of the message that has just been stored, the original text and the
  outgoing text.
\<close>

theorem relay_fanout:
  assumes "db_get (store st) recipient = Some r"
    and "snd (snd (outgoing_stage e st sender text))
         \<or> snd (snd (incoming_stage e st sender r text)) \<longrightarrow> alive e ws"
  shows "let outgoing = fst (outgoing_stage e st sender text);
             final = fst (incoming_stage e st sender r text);
             mid = fresh_id (messages (store st))
         in fst (relay e st ws sender recipient text) = None
          \<and> messages (store (snd (relay e st ws sender recipient text))) =
              messages (store st)
              @ [\<lparr> msg_id = mid, sender_id = sender, recipient_id = recipient,
                   original_text = Some text, outgoing_text = Some outgoing,
                   rephrased_text = Some final,
                   instruction_used = Some (or_empty (instruction r)),
                   outgoing_instruction_used = Some (or_empty (sender_outgoing_of st sender)),
                   timestamp = clock e \<rparr>]
          \<and> sent (snd (relay e st ws sender recipient text)) =
              sent st
              @ (if snd (snd (outgoing_stage e st sender text))
                    \<or> snd (snd (incoming_stage e st sender r text))
                 then [(ws, rewrite_failed_notice)] else [])
              @ map (\<lambda>c. (c, MessageP \<lparr> p_id = mid, p_sender_id = sender,
                                        p_recipient_id = recipient, p_text = outgoing,
                                        p_final_text = final, p_original_text = text,
                                        p_outgoing_text = outgoing, p_mine = True \<rparr>))
                    (filter (alive e) (conns (active st) sender))
              @ map (\<lambda>c. (c, MessageP \<lparr> p_id = mid, p_sender_id = sender,
                                        p_recipient_id = recipient, p_text = final,
                                        p_final_text = final, p_original_text = text,
                                        p_outgoing_text = outgoing, p_mine = False \<rparr>))
                    (filter (alive e) (conns (active st) recipient))"
  unfolding relay_found [OF assms] Let_def
  by (simp add: send_to_user_result create_message_def payload_sender_def payload_recipient_def
        conns_def Let_def split: option.splits)

theorem relay_fanout_witness:
  "db_get (store demo_server) 2 = Some bob
   \<and> \<not> snd (snd (outgoing_stage lossy_env demo_server 1 ''hey''))
   \<and> \<not> snd (snd (incoming_stage lossy_env demo_server 1 bob ''hey''))
   \<and> \<not> alive lossy_env 9
   \<and> fst (relay lossy_env demo_server 9 1 2 ''hey'') = None
   \<and> sent (snd (relay lossy_env demo_server 9 1 2 ''hey'')) =
       [(7, MessageP \<lparr> p_id = 1, p_sender_id = 1, p_recipient_id = 2, p_text = ''Good day'',
                        p_final_text = ''Ahoy'', p_original_text = ''hey'',
                        p_outgoing_text = ''Good day'', p_mine = True \<rparr>),
        (8, MessageP \<lparr> p_id = 1, p_sender_id = 1, p_recipient_id = 2, p_text = ''Good day'',
                        p_final_text = ''Ahoy'', p_original_text = ''hey'',
                        p_outgoing_text = ''Good day'', p_mine = True \<rparr>),
        (5, MessageP \<lparr> p_id = 1, p_sender_id = 1, p_recipient_id = 2, p_text = ''Ahoy'',
                        p_final_text = ''Ahoy'', p_original_text = ''hey'',
                        p_outgoing_text = ''Good day'', p_mine = False \<rparr>)]"
proof -
  have a: "db_get (store demo_server) 2 = Some bob"
    by (simp add: demo_server_def db_get_def alice_def bob_def)
  have s1: "outgoing_stage lossy_env demo_server 1 ''hey'' = (''Good day'', True, False)"
    by code_simp
  have s2: "incoming_stage lossy_env demo_server 1 bob ''hey'' = (''Ahoy'', True, False)"
    by code_simp
  have b: "snd (snd (outgoing_stage lossy_env demo_server 1 ''hey''))
           \<or> snd (snd (incoming_stage lossy_env demo_server 1 bob ''hey''))
           \<longrightarrow> alive lossy_env 9"
    by (simp add: s1 s2)
  have d: "\<not> alive lossy_env 9"
    by (simp add: lossy_env_def)
  have ids: "fresh_id (messages (store demo_server)) = 1"
    by (simp add: demo_server_def fresh_id_def)
  have cs: "filter (alive lossy_env) (conns (active demo_server) 1) = [7, 8]"
           "filter (alive lossy_env) (conns (active demo_server) 2) = [5]"
    by (simp_all add: demo_server_def lossy_env_def conns_def)
  have e: "sent demo_server = []"
    by (simp add: demo_server_def)
  from relay_fanout [OF a b] a d
  show ?thesis
    by (simp add: Let_def s1 s2 ids cs e)
qed

text \<open>
  Claim C2.  For a send event with a non-empty original text, every message that the
  relay adds to the storage has that original text, a non-empty outgoing text and a
  non-empty rephrased text, whatever the two completion calls return or raise and whatever
  the two instructions are: each rewrite returns a non-empty text for a non-empty input
  (\<open>rewrite_text_nonempty\<close>).
\<close>

theorem relay_rephrased_nonempty:
  assumes "text \<noteq> []"
  shows "\<forall>m \<in> set (messages (store (snd (relay e st ws sender recipient text)))).
           m \<in> set (messages (store st))
           \<or> (original_text m = Some text
              \<and> (\<exists>out. outgoing_text m = Some out \<and> out \<noteq> [])
              \<and> (\<exists>fin. rephrased_text m = Some fin \<and> fin \<noteq> []))"
proof -
  have n1: "fst (rewrite_text c1 text i1) \<noteq> []" for c1 i1
    using assms by (rule rewrite_text_nonempty)
  have n2: "fst (rewrite_text c2 (fst (rewrite_text c1 text i1)) i2) \<noteq> []" for c1 c2 i1 i2
    using n1 by (rule rewrite_text_nonempty)
  show ?thesis
    by (auto simp: relay_def Let_def run_rewrite_def send_json_def store_send_to_user
          create_message_def assms n1 n2 split: option.splits sum.splits if_splits)
qed

theorem relay_rephrased_nonempty_witness:
  "''hey'' \<noteq> []
   \<and> messages (store demo_server) = []
   \<and> messages (store (snd (relay outage_env demo_server 7 1 2 ''hey''))) =
       [\<lparr> msg_id = 1, sender_id = 1, recipient_id = 2, original_text = Some ''hey'',
          outgoing_text = Some ''hey'', rephrased_text = Some ''hey'',
          instruction_used = Some ''pirate speak'',
          outgoing_instruction_used = Some ''formal'', timestamp = 100 \<rparr>]
   \<and> map rephrased_text (messages (store (snd (relay outage_env demo_server 7 1 2 ''hey''))))
       \<noteq> [Some []]"
proof -
  have a: "''hey'' \<noteq> []" by simp
  have z: "messages (store demo_server) = []" by (simp add: demo_server_def)
  have m: "messages (store (snd (relay outage_env demo_server 7 1 2 ''hey''))) =
       [\<lparr> msg_id = 1, sender_id = 1, recipient_id = 2, original_text = Some ''hey'',
          outgoing_text = Some ''hey'', rephrased_text = Some ''hey'',
          instruction_used = Some ''pirate speak'',
          outgoing_instruction_used = Some ''formal'', timestamp = 100 \<rparr>]"
    by code_simp
  from relay_rephrased_nonempty [OF a, of outage_env demo_server 7 1 2]
  have "map rephrased_text (messages (store (snd (relay outage_env demo_server 7 1 2 ''hey''))))
          \<noteq> [Some []]"
    by (auto simp: z)
  with a z m show ?thesis by blast
qed

text \<open>
  Claim C5 as stated speaks of every send event whose recipient does not exist.  The
  loop drops a send event with a blank text before it looks the recipient up: for such an
  event to the unknown user 999 nothing is written to the connection.
\<close>

theorem blank_send_unknown_recipient_counterexample:
  "db_get (store demo_server) 999 = None
   \<and> ws_step lossy_env demo_server 7 1 None blank_send_frame = (Continue None, demo_server)"
  by (simp add: ws_step_def blank_send_frame_def dict_get_def text_field_def strip_def
        is_space_def db_get_def demo_server_def alice_def bob_def)

text \<open>
  Claim C5, amended.  For a send event with a non-empty trimmed text whose recipient is
  not in the storage, arriving on an open connection, the loop writes the error payload
  with detail \<open>recipient_not_found\<close> to that connection and does nothing else: the
  storage, the registry and the log of the calls of \<open>_rewrite_text\<close> are as before (no
  message is stored, no rewrite stage runs, nothing is fanned out), and the loop goes on
  with the next frame.
\<close>

theorem ws_loop_recipient_not_found:
  assumes "dict_get kvs ''type'' = Some (JStr ''send'')"
    and "dict_get kvs ''to'' = Some v" and "py_int v = Inr recipient"
    and "text_field (dict_get kvs ''text'') = Inr text" and "text \<noteq> []"
    and "db_get (store st) recipient = None" and "alive e ws"
  shows "ws_loop st ws uid peer ((e, Parsed (JDict kvs)) # rest) =
           ws_loop (st\<lparr>sent := sent st @ [(ws, ErrorP ''recipient_not_found'' None)]\<rparr>)
             ws uid peer rest"
  using assms by (simp add: ws_step_def relay_def send_json_def)

theorem ws_loop_recipient_not_found_witness:
  "dict_get [(''type'', JStr ''send''), (''to'', JInt 999), (''text'', JStr '' hey '')] ''type''
     = Some (JStr ''send'')
   \<and> dict_get [(''type'', JStr ''send''), (''to'', JInt 999), (''text'', JStr '' hey '')] ''to''
     = Some (JInt 999)
   \<and> py_int (JInt 999) = Inr 999
   \<and> text_field (dict_get [(''type'', JStr ''send''), (''to'', JInt 999),
                            (''text'', JStr '' hey '')] ''text'') = Inr ''hey''
   \<and> ''hey'' \<noteq> []
   \<and> db_get (store demo_server) 999 = None
   \<and> alive lossy_env 7
   \<and> ws_loop demo_server 7 1 None [(lossy_env, lost_send_frame), (lossy_env, join_frame)] =
       (WebSocketDisconnect,
        demo_server\<lparr>sent := [(7, ErrorP ''recipient_not_found'' None), (7, JoinedP True 2)]\<rparr>)"
proof -
  have a: "dict_get [(''type'', JStr ''send''), (''to'', JInt 999), (''text'', JStr '' hey '')]
             ''type'' = Some (JStr ''send'')"
    by (simp add: dict_get_def)
  have b: "dict_get [(''type'', JStr ''send''), (''to'', JInt 999), (''text'', JStr '' hey '')]
             ''to'' = Some (JInt 999)"
    by (simp add: dict_get_def)
  have c: "py_int (JInt 999) = Inr 999" by simp
  have d: "text_field (dict_get [(''type'', JStr ''send''), (''to'', JInt 999),
                                 (''text'', JStr '' hey '')] ''text'') = Inr ''hey''"
    by (simp add: dict_get_def text_field_def strip_def is_space_def)
  have f: "''hey'' \<noteq> []" by simp
  have g: "db_get (store demo_server) 999 = None"
    by (simp add: db_get_def demo_server_def alice_def bob_def)
  have h: "alive lossy_env 7" by (simp add: lossy_env_def)
  have s: "sent demo_server = []" by (simp add: demo_server_def)
  have i: "int_of_str ''2'' = Inr 2" by code_simp
  have "ws_loop demo_server 7 1 None [(lossy_env, lost_send_frame), (lossy_env, join_frame)] =
          ws_loop (demo_server\<lparr>sent := sent demo_server
                                 @ [(7, ErrorP ''recipient_not_found'' None)]\<rparr>)
            7 1 None [(lossy_env, join_frame)]"
    unfolding lost_send_frame_def by (rule ws_loop_recipient_not_found [OF a b c d f g h])
  also have "\<dots> = (WebSocketDisconnect,
        demo_server\<lparr>sent := [(7, ErrorP ''recipient_not_found'' None), (7, JoinedP True 2)]\<rparr>)"
    by (simp add: ws_step_def join_frame_def dict_get_def send_json_def h s i)
  finally show ?thesis using a b c d f g h by simp
qed

text \<open>
  Claim C9 as stated covers frames that cannot be parsed.  \<open>json.loads\<close> raises on such a
  frame and nothing in the loop catches it: the loop ends with that exception, no error
  payload is written, and a frame that follows is never read.
\<close>

theorem unparsable_frame_ends_loop_counterexample:
  "ws_loop demo_server 7 1 None [(lossy_env, Unparsable), (lossy_env, ping_frame)]
     = (JSONDecodeError, demo_server)"
  by (simp add: ws_step_def)

text \<open>
  Claim C9, amended.  For an inbound frame that parses to a JSON object whose \<open>type\<close> is
  neither \<open>join\<close> nor \<open>send\<close> (or is missing), arriving on an open connection, the loop
  writes the error payload with detail \<open>unknown_type\<close> to that connection, changes nothing
  else, and goes on with the next frame.
\<close>

theorem ws_loop_unknown_type:
  assumes "dict_get kvs ''type'' \<noteq> Some (JStr ''join'')"
    and "dict_get kvs ''type'' \<noteq> Some (JStr ''send'')"
    and "alive e ws"
  shows "ws_loop st ws uid peer ((e, Parsed (JDict kvs)) # rest) =
           ws_loop (st\<lparr>sent := sent st @ [(ws, ErrorP ''unknown_type'' None)]\<rparr>) ws uid peer rest"
  using assms by (simp add: ws_step_def send_json_def)

theorem ws_loop_unknown_type_witness:
  "dict_get [(''type'', JStr ''ping'')] ''type'' \<noteq> Some (JStr ''join'')
   \<and> dict_get [(''type'', JStr ''ping'')] ''type'' \<noteq> Some (JStr ''send'')
   \<and> alive lossy_env 7
   \<and> ws_loop demo_server 7 1 None [(lossy_env, ping_frame), (lossy_env, join_frame)] =
       (WebSocketDisconnect,
        demo_server\<lparr>sent := [(7, ErrorP ''unknown_type'' None), (7, JoinedP True 2)]\<rparr>)"
proof -
  have a: "dict_get [(''type'', JStr ''ping'')] ''type'' \<noteq> Some (JStr ''join'')"
    by (simp add: dict_get_def)
  have b: "dict_get [(''type'', JStr ''ping'')] ''type'' \<noteq> Some (JStr ''send'')"
    by (simp add: dict_get_def)
  have c: "alive lossy_env 7" by (simp add: lossy_env_def)
  have d: "sent demo_server = []" by (simp add: demo_server_def)
  have i: "int_of_str ''2'' = Inr 2" by code_simp
  have "ws_loop demo_server 7 1 None [(lossy_env, ping_frame), (lossy_env, join_frame)] =
          ws_loop (demo_server\<lparr>sent := sent demo_server @ [(7, ErrorP ''unknown_type'' None)]\<rparr>)
            7 1 None [(lossy_env, join_frame)]"
    unfolding ping_frame_def by (rule ws_loop_unknown_type [OF a b c])
  also have "\<dots> = (WebSocketDisconnect,
        demo_server\<lparr>sent := [(7, ErrorP ''unknown_type'' None), (7, JoinedP True 2)]\<rparr>)"
    by (simp add: ws_step_def join_frame_def dict_get_def send_json_def c d i)
  finally show ?thesis using a b c by simp
qed

section \<open>Properties of the conversation summaries\<close>

lemma or3_first_present: "or3 a b c = first_present [a, b, c]"
  by (cases a; cases b; cases c) (simp_all add: or3_def text_truthy_def or_empty_def)

lemma fold_upd_lookup:
  "distinct (map k xs) \<Longrightarrow>
   fold (\<lambda>u m. m(k u \<mapsto> f u)) xs m0 p =
     (case find (\<lambda>u. k u = p) xs of None \<Rightarrow> m0 p | Some u \<Rightarrow> Some (f u))"
proof (induction xs arbitrary: m0)
  case Nil
  show ?case by simp
next
  case (Cons x xs)
  then have d: "distinct (map k xs)" and nx: "k x \<notin> k ` set xs" by simp_all
  have step: "fold (\<lambda>u m. m(k u \<mapsto> f u)) (x # xs) m0 p
                = fold (\<lambda>u m. m(k u \<mapsto> f u)) xs (m0(k x \<mapsto> f x)) p"
    by (simp only: fold_simps)
  have ih: "fold (\<lambda>u m. m(k u \<mapsto> f u)) xs (m0(k x \<mapsto> f x)) p
              = (case find (\<lambda>u. k u = p) xs of
                   None \<Rightarrow> (m0(k x \<mapsto> f x)) p | Some u \<Rightarrow> Some (f u))"
    by (rule Cons.IH [OF d])
  show ?case
  proof (cases "k x = p")
    case True
    have "find (\<lambda>u. k u = p) xs = None"
      unfolding find_None_iff using nx True by (auto simp: image_iff)
    with True show ?thesis unfolding step ih by simp
  next
    case False
    then show ?thesis unfolding step ih by (simp split: option.splits)
  qed
qed

lemma find_filter: "find P (filter Q xs) = find (\<lambda>x. Q x \<and> P x) xs"
  by (induction xs) auto

lemma initial_summaries_lookup:
  assumes "distinct (map user_id us)"
  shows "initial_summaries us viewer p =
     (if p = viewer then None
      else (case find (\<lambda>u. user_id u = p) us of
              None \<Rightarrow> None
            | Some u \<Rightarrow> Some \<lparr> s_peer_id = p, s_nickname = nickname u,
                               last_message_id = None, last_message_sender_id = None,
                               last_message_text = None, last_message_timestamp = None \<rparr>))"
proof -
  have d: "distinct (map user_id (filter (\<lambda>u. user_id u \<noteq> viewer) us))"
    using assms by (rule distinct_map_filter)
  have f1: "find (\<lambda>u. False) us = None"
    by (simp add: find_None_iff)
  have f2: "p \<noteq> viewer \<Longrightarrow>
            find (\<lambda>u. user_id u \<noteq> viewer \<and> user_id u = p) us = find (\<lambda>u. user_id u = p) us"
    by (rule find_cong) auto
  have s: "find (\<lambda>u. user_id u = p) us = Some u \<Longrightarrow> user_id u = p" for u
    by (auto simp: find_Some_iff)
  show ?thesis
    unfolding initial_summaries_def
    by (auto simp: fold_upd_lookup [OF d] find_filter f1 f2 dest: s split: option.splits)
qed

lemma scan_message_lookup:
  "scan_message viewer msg m p =
     (if peer_of viewer msg = p
      then (case m p of
              None \<Rightarrow> None
            | Some sm \<Rightarrow>
                if last_message_id sm \<noteq> None then Some sm
                else Some (sm\<lparr> last_message_id := Some (msg_id msg),
                              last_message_sender_id := Some (sender_id msg),
                              last_message_text := Some (display_text_spec viewer msg),
                              last_message_timestamp := Some (timestamp msg) \<rparr>))
      else m p)"
  by (simp add: scan_message_def Let_def display_text_spec_def or3_first_present
        split: option.splits)

lemma scan_fold:
  "fold (scan_message viewer) msgs m p =
     (case m p of
        None \<Rightarrow> None
      | Some sm \<Rightarrow>
          if last_message_id sm \<noteq> None then Some sm
          else (case find (\<lambda>x. peer_of viewer x = p)
                       msgs of
                  None \<Rightarrow> Some sm
                | Some msg \<Rightarrow>
                    Some (sm\<lparr> last_message_id := Some (msg_id msg),
                             last_message_sender_id := Some (sender_id msg),
                             last_message_text := Some (display_text_spec viewer msg),
                             last_message_timestamp := Some (timestamp msg) \<rparr>)))"
proof (induction msgs arbitrary: m)
  case Nil
  show ?case by (simp split: option.splits)
next
  case (Cons msg msgs)
  have "fold (scan_message viewer) (msg # msgs) m p
          = fold (scan_message viewer) msgs (scan_message viewer msg m) p"
    by (simp only: fold_simps)
  also note Cons.IH [of "scan_message viewer msg m"]
  finally have eq: "fold (scan_message viewer) (msg # msgs) m p =
     (case scan_message viewer msg m p of
        None \<Rightarrow> None
      | Some sm \<Rightarrow>
          if last_message_id sm \<noteq> None then Some sm
          else (case find (\<lambda>x. peer_of viewer x = p)
                       msgs of
                  None \<Rightarrow> Some sm
                | Some msg \<Rightarrow>
                    Some (sm\<lparr> last_message_id := Some (msg_id msg),
                             last_message_sender_id := Some (sender_id msg),
                             last_message_text := Some (display_text_spec viewer msg),
                             last_message_timestamp := Some (timestamp msg) \<rparr>)))" .
  show ?case
    unfolding eq
    by (cases "peer_of viewer msg = p")
       (simp_all add: scan_message_lookup split: option.splits)
qed

lemma find_as_filter:
  "find P xs = (case filter P xs of [] \<Rightarrow> None | x # _ \<Rightarrow> Some x)"
  by (induction xs) auto

lemma head_sort_key_most_recent:
  "(case sort_key (\<lambda>m. - timestamp m) ms of [] \<Rightarrow> None | x # _ \<Rightarrow> Some x) = most_recent ms"
proof (induction ms)
  case Nil
  show ?case by simp
next
  case (Cons m ms)
  show ?case
  proof (cases "sort_key (\<lambda>m. - timestamp m) ms")
    case Nil
    with Cons.IH show ?thesis by simp
  next
    case (Cons z zs)
    with Cons.IH have "most_recent ms = Some z" by simp
    with Cons show ?thesis by auto
  qed
qed

lemma viewer_messages_most_recent:
  assumes "p \<noteq> viewer"
  shows "find (\<lambda>x. peer_of viewer x = p) (viewer_messages d viewer)
         = most_recent (filter (between viewer p) (messages d))"
proof -
  have f: "filter (\<lambda>x. peer_of viewer x = p)
             (filter (\<lambda>m. sender_id m = viewer \<or> recipient_id m = viewer) (messages d))
           = filter (between viewer p) (messages d)"
    unfolding filter_filter
    by (rule filter_cong) (use assms in \<open>auto simp: between_def peer_of_def\<close>)
  have "filter (\<lambda>x. peer_of viewer x = p) (viewer_messages d viewer)
          = sort_key (\<lambda>m. - timestamp m) (filter (between viewer p) (messages d))"
    unfolding viewer_messages_def filter_sort f ..
  then show ?thesis
    by (simp only: find_as_filter [of "\<lambda>x. peer_of viewer x = p"] head_sort_key_most_recent)
qed

lemma most_recent_is_newest:
  "most_recent ms = Some m \<Longrightarrow> m \<in> set ms \<and> (\<forall>n \<in> set ms. timestamp n \<le> timestamp m)"
proof (induction ms arbitrary: m)
  case Nil
  then show ?case by simp
next
  case (Cons x xs)
  show ?case
  proof (cases "most_recent xs")
    case None
    then have "xs = []" by (cases xs) (auto split: option.splits if_splits)
    with Cons.prems show ?thesis by simp
  next
    case (Some n)
    from Cons.IH [OF Some] Cons.prems Some show ?thesis
      by (auto split: if_splits)
  qed
qed

lemma viewer_messages_newest_first:
  "sorted (map (\<lambda>m. - timestamp m) (viewer_messages d viewer))"
  by (simp add: viewer_messages_def)

text \<open>
  Claim C6.  With user ids a key of the users table, the summaries computed for a viewer
  by the pass over the viewer's messages are those of \<open>summary_spec\<close>: exactly the other
  known users have a summary; the last message of a peer is the most recent message
  between viewer and peer, so that no message between them has a later timestamp than
  the one reported; its text is chosen by direction (sent by the viewer: outgoing, else
  rephrased, else original, else empty; received: rephrased, else outgoing, else
  original, else empty); a peer without a message has all four last-message fields null.
\<close>

theorem get_conversation_summaries_refines:
  assumes "distinct (map user_id (users d))"
  shows "get_conversation_summaries d viewer peer = summary_spec d viewer peer
         \<and> (\<forall>sm m. get_conversation_summaries d viewer peer = Some sm
                   \<longrightarrow> m \<in> set (messages d) \<longrightarrow> between viewer peer m
                   \<longrightarrow> (\<exists>t. last_message_timestamp sm = Some t \<and> timestamp m \<le> t))"
proof -
  have eq: "get_conversation_summaries d viewer peer = summary_spec d viewer peer"
  proof (cases "peer = viewer")
    case True
    then show ?thesis
      unfolding get_conversation_summaries_def summary_spec_def scan_fold
      by (simp add: initial_summaries_lookup [OF assms] split: option.splits)
  next
    case False
    note f = viewer_messages_most_recent [OF False, of d]
    show ?thesis
      unfolding get_conversation_summaries_def summary_spec_def scan_fold f
      using False by (simp add: initial_summaries_lookup [OF assms] split: option.splits)
  qed
  have "\<exists>t. last_message_timestamp sm = Some t \<and> timestamp m \<le> t"
    if sm: "summary_spec d viewer peer = Some sm"
      and m: "m \<in> set (messages d)" "between viewer peer m" for sm m
  proof (cases "most_recent (filter (between viewer peer) (messages d))")
    case None
    have "filter (between viewer peer) (messages d) = []"
      using None by (cases "filter (between viewer peer) (messages d)")
                     (auto split: option.splits if_splits)
    with m show ?thesis by (auto simp: filter_empty_conv)
  next
    case (Some n)
    from most_recent_is_newest [OF Some] m have "timestamp m \<le> timestamp n" by auto
    with sm Some show ?thesis
      by (auto simp: summary_spec_def split: option.splits if_splits)
  qed
  with eq show ?thesis by simp
qed

theorem get_conversation_summaries_refines_witness:
  "distinct (map user_id (users chat_db))
   \<and> get_conversation_summaries chat_db 1 2 =
       Some \<lparr> s_peer_id = 2, s_nickname = ''bob'', last_message_id = Some 2,
              last_message_sender_id = Some 2, last_message_text = Some ''yo'',
              last_message_timestamp = Some 30 \<rparr>
   \<and> get_conversation_summaries chat_db 2 1 =
       Some \<lparr> s_peer_id = 1, s_nickname = ''alice'', last_message_id = Some 2,
              last_message_sender_id = Some 2, last_message_text = Some ''yo'',
              last_message_timestamp = Some 30 \<rparr>
   \<and> get_conversation_summaries chat_db 1 1 = None"
proof -
  have a: "distinct (map user_id (users chat_db))"
    by (simp add: chat_db_def alice_def bob_def)
  have s1: "summary_spec chat_db 1 2 =
       Some \<lparr> s_peer_id = 2, s_nickname = ''bob'', last_message_id = Some 2,
              last_message_sender_id = Some 2, last_message_text = Some ''yo'',
              last_message_timestamp = Some 30 \<rparr>"
    by code_simp
  have s2: "summary_spec chat_db 2 1 =
       Some \<lparr> s_peer_id = 1, s_nickname = ''alice'', last_message_id = Some 2,
              last_message_sender_id = Some 2, last_message_text = Some ''yo'',
              last_message_timestamp = Some 30 \<rparr>"
    by code_simp
  have s3: "summary_spec chat_db 1 1 = None"
    by code_simp
  from get_conversation_summaries_refines [OF a, of 1 2]
       get_conversation_summaries_refines [OF a, of 2 1]
       get_conversation_summaries_refines [OF a, of 1 1] a s1 s2 s3
  show ?thesis by simp
qed

end
